theory Spec2Isabelle
  imports Complex_Main
begin

section \<open>Conventions of the embedding\<close>

text \<open>
  Python floats are modelled as \<^typ>\<open>real\<close>. The functions embedded here only compare
  readings with fixed thresholds and scale them by fixed divisors, so the thresholds at
  which a rule fires are the same in both number systems; rounding of the scaled values is
  outside the model. A nullable column is an \<open>option\<close>.

  Python's truth test on an optional number (\<^verbatim>\<open>if x:\<close>, \<^verbatim>\<open>x or d\<close>) is false for
  \<^verbatim>\<open>None\<close> and for zero.
\<close>

definition truthy :: "'a::zero option \<Rightarrow> bool" where
  "truthy x = (case x of None \<Rightarrow> False | Some v \<Rightarrow> v \<noteq> 0)"

text \<open>The value of a reading; read only behind a \<^const>\<open>truthy\<close> guard.\<close>

definition fval :: "'a::zero option \<Rightarrow> 'a" where
  "fval x = (case x of None \<Rightarrow> 0 | Some v \<Rightarrow> v)"

text \<open>\<^verbatim>\<open>x or d\<close> on an optional number.\<close>

definition py_or :: "'a::zero option \<Rightarrow> 'a \<Rightarrow> 'a" where
  "py_or x d = (if truthy x then fval x else d)"

text \<open>\<^verbatim>\<open>np.mean\<close> of a list of numbers.\<close>

definition np_mean :: "real list \<Rightarrow> real" where
  "np_mean xs = sum_list xs / real (length xs)"

section \<open>Risk scoring (services/ai_prediction.py)\<close>

text \<open>The readings of \<^verbatim>\<open>ClimateData\<close> (models/climate.py) that the scoring reads or
  that the feature vector is built from.\<close>

record ClimateData =
  cd_id :: int
  temperature :: "real option"
  humidity :: "real option"
  pressure :: "real option"
  wind_speed :: "real option"
  wind_direction :: "real option"
  precipitation :: "real option"
  visibility :: "real option"
  cloud_cover :: "real option"
  uv_index :: "real option"
  pm25 :: "real option"
  pm10 :: "real option"

text \<open>\<^verbatim>\<open>RiskAssessment\<close>; the two JSON text columns (risk factors, recommendations)
  are left out, no score depends on them.\<close>

record RiskAssessment =
  climate_data_id :: int
  flood_risk :: real
  drought_risk :: real
  storm_risk :: real
  heat_wave_risk :: real
  cold_wave_risk :: real
  wildfire_risk :: real
  overall_risk :: real
  model_version :: string
  confidence_score :: real
  prediction_horizon :: int

text \<open>
  \<^verbatim>\<open>_generate_default_risk_assessment\<close>, the rule-based tier. Each score starts at 0
  and is overwritten by at most one rule. The function returns \<^verbatim>\<open>None\<close> only from its
  exception handler; nothing in the body raises on numeric readings, so the model always
  returns \<open>Some\<close>.
\<close>

definition generate_default_risk_assessment :: "ClimateData \<Rightarrow> RiskAssessment option" where
  "generate_default_risk_assessment climate_data =
    (let t = temperature climate_data;
         p = precipitation climate_data;
         w = wind_speed climate_data;
         h = humidity climate_data;
         heat_wave = (if truthy t \<and> fval t > 35 then min 1 ((fval t - 35) / 10) else 0);
         cold_wave = (if truthy t \<and> \<not> fval t > 35 \<and> fval t < - 10
                      then min 1 ((- 10 - fval t) / 20) else 0);
         flood = (if truthy p \<and> fval p > 50 then min 1 ((fval p - 50) / 100) else 0);
         drought = (if truthy p \<and> \<not> fval p > 50 \<and> fval p < 1 then 3 / 10 else 0);
         storm = (if truthy w \<and> fval w > 15 then min 1 ((fval w - 15) / 20) else 0);
         wildfire = (if truthy h \<and> truthy t \<and> fval h < 30 \<and> fval t > 25
                     then min 1 ((30 - fval h) / 30 * (fval t - 25) / 15) else 0);
         overall = np_mean [flood, drought, storm, heat_wave, cold_wave, wildfire]
     in Some \<lparr>climate_data_id = cd_id climate_data,
              flood_risk = flood,
              drought_risk = drought,
              storm_risk = storm,
              heat_wave_risk = heat_wave,
              cold_wave_risk = cold_wave,
              wildfire_risk = wildfire,
              overall_risk = overall,
              model_version = ''rule_based_v1.0'',
              confidence_score = 6 / 10,
              prediction_horizon = 24\<rparr>)"

text \<open>
  \<^verbatim>\<open>generate_risk_assessment\<close>, the learned tier with its fallback. The feature
  preparation, the scaler and the Keras model are external; \<open>predict\<close> stands for lines
  310-322: it yields row 0 of the model's output, or \<open>None\<close> when the feature vector is
  empty or anything on the way raises. Reading one of the first six outputs of a shorter
  row raises \<^verbatim>\<open>IndexError\<close>, which the handler turns into the rule-based tier as well.
  The overall score is the mean of the whole row.
\<close>

definition generate_risk_assessment ::
  "(ClimateData \<Rightarrow> real list option) \<Rightarrow> ClimateData \<Rightarrow> RiskAssessment option" where
  "generate_risk_assessment predict climate_data =
    (case predict climate_data of
       None \<Rightarrow> generate_default_risk_assessment climate_data
     | Some row \<Rightarrow>
         if length row < 6 then generate_default_risk_assessment climate_data
         else Some \<lparr>climate_data_id = cd_id climate_data,
                    flood_risk = row ! 0,
                    drought_risk = row ! 1,
                    storm_risk = row ! 2,
                    heat_wave_risk = row ! 3,
                    cold_wave_risk = row ! 4,
                    wildfire_risk = row ! 5,
                    overall_risk = np_mean row,
                    model_version = ''v1.0'',
                    confidence_score = 85 / 100,
                    prediction_horizon = 24\<rparr>)"

text \<open>The six category scores of an assessment, in the order of the source.\<close>

definition category_scores :: "RiskAssessment \<Rightarrow> real list" where
  "category_scores ra =
     [flood_risk ra, drought_risk ra, storm_risk ra,
      heat_wave_risk ra, cold_wave_risk ra, wildfire_risk ra]"

text \<open>An observation with only the three readings given, as in the spec's example.\<close>

definition observation :: "real option \<Rightarrow> real option \<Rightarrow> real option \<Rightarrow> real option \<Rightarrow> ClimateData" where
  "observation t h w p =
     \<lparr>cd_id = 1, temperature = t, humidity = h, pressure = None, wind_speed = w,
      wind_direction = None, precipitation = p, visibility = None, cloud_cover = None,
      uv_index = None, pm25 = None, pm10 = None\<rparr>"

section \<open>Text, users and alerts (models/user.py, models/emergency.py)\<close>

text \<open>
  A Python \<^verbatim>\<open>str\<close> is a sequence of Unicode code points and \<^verbatim>\<open>len\<close> counts them, so
  text is a list of code points here. Literals of the source are ASCII but for one emoji.
\<close>

type_synonym pystr = "nat list"

definition ascii :: "string \<Rightarrow> pystr" where
  "ascii s = map of_char s"

text \<open>\<^verbatim>\<open>str.upper\<close>, on the ASCII letters; the source applies it to enum values only.\<close>

definition upper :: "pystr \<Rightarrow> pystr" where
  "upper s = map (\<lambda>c. if 97 \<le> c \<and> c \<le> 122 then c - 32 else c) s"

text \<open>Truth test of an optional string: \<^verbatim>\<open>None\<close> and the empty string are false.\<close>

definition str_truthy :: "pystr option \<Rightarrow> bool" where
  "str_truthy x = (case x of None \<Rightarrow> False | Some s \<Rightarrow> s \<noteq> [])"

text \<open>\<^verbatim>\<open>x or d\<close> on an optional string.\<close>

definition str_or :: "pystr option \<Rightarrow> pystr \<Rightarrow> pystr" where
  "str_or x d = (case x of None \<Rightarrow> d | Some s \<Rightarrow> if s \<noteq> [] then s else d)"

datatype UserRole = CITIZEN | GOVERNMENT | EMERGENCY_RESPONDER | RESEARCHER | ADMIN

datatype AlertSeverity = LOW | MEDIUM | HIGH | CRITICAL

datatype AlertStatus = ACTIVE | RESOLVED | CANCELLED

fun severity_value :: "AlertSeverity \<Rightarrow> pystr" where
  "severity_value LOW = ascii ''low''"
| "severity_value MEDIUM = ascii ''medium''"
| "severity_value HIGH = ascii ''high''"
| "severity_value CRITICAL = ascii ''critical''"

text \<open>The columns of \<^verbatim>\<open>User\<close> that matching and dispatch read. The coordinates are
  text columns.\<close>

record User =
  user_id :: int
  email :: pystr
  phone_number :: "pystr option"
  role :: UserRole
  is_active :: bool
  default_latitude :: "pystr option"
  default_longitude :: "pystr option"
  notification_radius :: "int option"

text \<open>The columns of \<^verbatim>\<open>EmergencyAlert\<close> that matching, dispatch and update read or
  write. Times are seconds since the epoch. \<open>status\<close> is a nullable column; \<open>title\<close>,
  \<open>description\<close> and \<open>severity\<close> are not.\<close>

record EmergencyAlert =
  alert_id :: pystr
  title :: pystr
  description :: pystr
  severity :: AlertSeverity
  status :: "AlertStatus option"
  latitude :: real
  longitude :: real
  radius :: "real option"
  location_name :: "pystr option"
  contact_info :: "pystr option"
  end_time :: "int option"
  expires_at :: "int option"
  updated_at :: "int option"

section \<open>Geospatial matching (services/alert_service.py)\<close>

text \<open>
  \<^verbatim>\<open>_find_affected_users\<close>. The query keeps the active users with both coordinates
  present. Two library calls are parameters: \<open>float_of\<close> is Python's \<^verbatim>\<open>float\<close> on a
  string and \<open>geodesic\<close> is geopy's distance in kilometres; each yields \<open>None\<close> where the
  call raises \<^verbatim>\<open>ValueError\<close>, which the loop answers by skipping the user.
\<close>

definition located_users :: "User list \<Rightarrow> User list" where
  "located_users users =
     filter (\<lambda>u. is_active u \<and> default_latitude u \<noteq> None \<and> default_longitude u \<noteq> None) users"

definition within_radius ::
  "(pystr \<Rightarrow> real option) \<Rightarrow> (real \<times> real \<Rightarrow> real \<times> real \<Rightarrow> real option) \<Rightarrow>
   EmergencyAlert \<Rightarrow> User \<Rightarrow> bool" where
  "within_radius float_of geodesic alert user =
     (case default_latitude user of None \<Rightarrow> False | Some la \<Rightarrow>
     (case default_longitude user of None \<Rightarrow> False | Some lo \<Rightarrow>
     (case float_of la of None \<Rightarrow> False | Some x \<Rightarrow>
     (case float_of lo of None \<Rightarrow> False | Some y \<Rightarrow>
     (case geodesic (latitude alert, longitude alert) (x, y) of None \<Rightarrow> False
      | Some distance \<Rightarrow>
          (let alert_radius = py_or (radius alert) 50;
               user_radius = py_or (notification_radius user) 50;
               effective_radius = max alert_radius (real_of_int user_radius)
           in distance \<le> effective_radius))))))"

definition find_affected_users ::
  "(pystr \<Rightarrow> real option) \<Rightarrow> (real \<times> real \<Rightarrow> real \<times> real \<Rightarrow> real option) \<Rightarrow>
   EmergencyAlert \<Rightarrow> User list \<Rightarrow> User list" where
  "find_affected_users float_of geodesic alert users =
     filter (within_radius float_of geodesic alert) (located_users users)"

section \<open>Notification dispatch (services/alert_service.py)\<close>

text \<open>
  The channel senders are mocks around an external service: each runs its body inside
  \<^verbatim>\<open>try\<close>, returns \<^verbatim>\<open>True\<close> at the end of it and \<^verbatim>\<open>False\<close> from the handler of
  every \<^verbatim>\<open>Exception\<close>. So a sender never raises; the parameter \<open>delivers\<close> says, for a
  channel and a user, whether the body runs through. Every call of a sender is recorded in
  a trace, in call order. The government email and the update push format
  \<^verbatim>\<open>alert.status.value\<close> in their body, which raises for an alert without a status, so
  these two return \<^verbatim>\<open>False\<close> there.
\<close>

datatype channel = Push | Email | Sms | GovernmentEmail | UpdatePush

type_synonym trace = "(channel \<times> User) list"

definition send_push_notification ::
  "(channel \<Rightarrow> User \<Rightarrow> bool) \<Rightarrow> User \<Rightarrow> EmergencyAlert \<Rightarrow> trace \<Rightarrow> bool \<times> trace" where
  "send_push_notification delivers user alert tr = (delivers Push user, tr @ [(Push, user)])"

definition send_email_notification ::
  "(channel \<Rightarrow> User \<Rightarrow> bool) \<Rightarrow> User \<Rightarrow> EmergencyAlert \<Rightarrow> trace \<Rightarrow> bool \<times> trace" where
  "send_email_notification delivers user alert tr = (delivers Email user, tr @ [(Email, user)])"

definition send_sms_notification ::
  "(channel \<Rightarrow> User \<Rightarrow> bool) \<Rightarrow> User \<Rightarrow> EmergencyAlert \<Rightarrow> trace \<Rightarrow> bool \<times> trace" where
  "send_sms_notification delivers user alert tr = (delivers Sms user, tr @ [(Sms, user)])"

definition send_government_email ::
  "(channel \<Rightarrow> User \<Rightarrow> bool) \<Rightarrow> User \<Rightarrow> EmergencyAlert \<Rightarrow> trace \<Rightarrow> bool \<times> trace" where
  "send_government_email delivers user alert tr =
     (status alert \<noteq> None \<and> delivers GovernmentEmail user, tr @ [(GovernmentEmail, user)])"

definition send_update_push_notification ::
  "(channel \<Rightarrow> User \<Rightarrow> bool) \<Rightarrow> User \<Rightarrow> EmergencyAlert \<Rightarrow> trace \<Rightarrow> bool \<times> trace" where
  "send_update_push_notification delivers user alert tr =
     (status alert \<noteq> None \<and> delivers UpdatePush user, tr @ [(UpdatePush, user)])"

text \<open>
  The SMS body that \<^verbatim>\<open>_send_sms_notification\<close> builds: the f-string, then the cut to
  the SMS limit. The emoji is the code point U+1F6A8.
\<close>

definition sms_composed :: "EmergencyAlert \<Rightarrow> pystr" where
  "sms_composed alert =
     [128680] @ ascii '' '' @ upper (severity_value (severity alert)) @ ascii '' ALERT: '' @
     title alert @ ascii ''. '' @
     ascii ''Location: '' @ str_or (location_name alert) (ascii ''See details'') @ ascii ''. '' @
     ascii ''Contact: '' @ str_or (contact_info alert) (ascii ''Emergency Services'') @ ascii ''. '' @
     ascii ''Alert ID: '' @ alert_id alert"

definition sms_message :: "EmergencyAlert \<Rightarrow> pystr" where
  "sms_message alert =
     (let message = sms_composed alert
      in if length message > 160 then take 157 message @ ascii ''...'' else message)"

text \<open>The dictionary \<^verbatim>\<open>notification_results\<close> that the loop over the users updates.\<close>

record notification_results =
  notifications_sent :: nat
  errors :: "pystr list"
  channels_used :: "string list"

text \<open>What a pass returns: the dictionary with its three keys, or the two-key dictionary
  (\<^verbatim>\<open>notifications_sent\<close>, \<^verbatim>\<open>errors\<close>) of the early return and of the outer handler.\<close>

datatype dispatch_result = Results notification_results | NoChannels nat "pystr list"




text \<open>A successful send: the counter goes up and the channel is appended if new.\<close>

definition record_success :: "string \<Rightarrow> notification_results \<Rightarrow> notification_results" where
  "record_success ch r =
     r\<lparr>notifications_sent := notifications_sent r + 1,
       channels_used := (if ch \<in> set (channels_used r) then channels_used r
                         else channels_used r @ [ch])\<rparr>"

text \<open>
  The body of the loop in \<^verbatim>\<open>send_alert_notifications\<close> for one user. \<^verbatim>\<open>and\<close> is
  short-circuit: the email sender is called only for a non-empty address, the SMS sender
  only for a critical alert and a non-empty phone number. No sender raises, so the
  handler of the loop body, the only place that appends to \<^verbatim>\<open>errors\<close>, is not reached.
\<close>

definition notify_user ::
  "(channel \<Rightarrow> User \<Rightarrow> bool) \<Rightarrow> EmergencyAlert \<Rightarrow> User \<Rightarrow>
   notification_results \<times> trace \<Rightarrow> notification_results \<times> trace" where
  "notify_user delivers alert user st =
     (let (res, tr) = st;
          (ok_push, tr1) = send_push_notification delivers user alert tr;
          res1 = (if ok_push then record_success ''push'' res else res);
          (ok_email, tr2) = (if email user \<noteq> []
                             then send_email_notification delivers user alert tr1
                             else (False, tr1));
          res2 = (if ok_email then record_success ''email'' res1 else res1);
          (ok_sms, tr3) = (if severity_value (severity alert) = ascii ''critical'' \<and>
                              str_truthy (phone_number user)
                           then send_sms_notification delivers user alert tr2
                           else (False, tr2));
          res3 = (if ok_sms then record_success ''sms'' res2 else res2)
      in (res3, tr3))"

fun notify_users ::
  "(channel \<Rightarrow> User \<Rightarrow> bool) \<Rightarrow> EmergencyAlert \<Rightarrow> User list \<Rightarrow>
   notification_results \<times> trace \<Rightarrow> notification_results \<times> trace" where
  "notify_users delivers alert [] st = st"
| "notify_users delivers alert (u # us) st =
     notify_users delivers alert us (notify_user delivers alert u st)"

text \<open>\<^verbatim>\<open>_notify_government_agencies\<close>: the special email, then a push, to every active
  government or responder user. The list of webhooks is empty in the source.\<close>

definition government_users :: "User list \<Rightarrow> User list" where
  "government_users users =
     filter (\<lambda>u. is_active u \<and> (role u = GOVERNMENT \<or> role u = EMERGENCY_RESPONDER)) users"

fun notify_government_users ::
  "(channel \<Rightarrow> User \<Rightarrow> bool) \<Rightarrow> EmergencyAlert \<Rightarrow> User list \<Rightarrow> trace \<Rightarrow> trace" where
  "notify_government_users delivers alert [] tr = tr"
| "notify_government_users delivers alert (u # us) tr =
     notify_government_users delivers alert us
       (snd (send_push_notification delivers u alert
          (snd (send_government_email delivers u alert tr))))"

definition notify_government_agencies ::
  "(channel \<Rightarrow> User \<Rightarrow> bool) \<Rightarrow> EmergencyAlert \<Rightarrow> User list \<Rightarrow> trace \<Rightarrow> trace" where
  "notify_government_agencies delivers alert users tr =
     notify_government_users delivers alert (government_users users) tr"

text \<open>
  \<^verbatim>\<open>send_alert_notifications\<close>, one dispatch pass over the table \<open>users\<close>. With no
  affected user it returns at once, before the government agencies are notified.
\<close>

definition send_alert_notifications ::
  "(pystr \<Rightarrow> real option) \<Rightarrow> (real \<times> real \<Rightarrow> real \<times> real \<Rightarrow> real option) \<Rightarrow>
   (channel \<Rightarrow> User \<Rightarrow> bool) \<Rightarrow> EmergencyAlert \<Rightarrow> User list \<Rightarrow> dispatch_result \<times> trace" where
  "send_alert_notifications float_of geodesic delivers alert users =
     (let affected_users = find_affected_users float_of geodesic alert users
      in if affected_users = [] then (NoChannels 0 [], [])
         else
           (let (res, tr) = notify_users delivers alert affected_users
                              (\<lparr>notifications_sent = 0, errors = [], channels_used = []\<rparr>, []);
                tr' = notify_government_agencies delivers alert users tr
            in (Results res, tr')))"

text \<open>
  \<^verbatim>\<open>send_alert_update_notifications\<close>, the pass after a status change: one update
  push to every affected user. \<^verbatim>\<open>_get_update_message\<close> reads \<^verbatim>\<open>alert.status.value\<close>
  before the loop; for an alert without a status this raises \<^verbatim>\<open>AttributeError\<close>, and the
  outer handler returns the text of the exception as the only error, with nothing sent.
\<close>

definition none_has_no_value :: pystr where
  "none_has_no_value =
     [39] @ ascii ''NoneType'' @ [39] @ ascii '' object has no attribute '' @
     [39] @ ascii ''value'' @ [39]"

fun notify_update_users ::
  "(channel \<Rightarrow> User \<Rightarrow> bool) \<Rightarrow> EmergencyAlert \<Rightarrow> User list \<Rightarrow> nat \<times> trace \<Rightarrow> nat \<times> trace" where
  "notify_update_users delivers alert [] st = st"
| "notify_update_users delivers alert (u # us) st =
     notify_update_users delivers alert us
       (let (n, tr) = st;
            (ok, tr1) = send_update_push_notification delivers u alert tr
        in (if ok then n + 1 else n, tr1))"

definition send_alert_update_notifications ::
  "(pystr \<Rightarrow> real option) \<Rightarrow> (real \<times> real \<Rightarrow> real \<times> real \<Rightarrow> real option) \<Rightarrow>
   (channel \<Rightarrow> User \<Rightarrow> bool) \<Rightarrow> EmergencyAlert \<Rightarrow> User list \<Rightarrow> dispatch_result \<times> trace" where
  "send_alert_update_notifications float_of geodesic delivers alert users =
     (let affected_users = find_affected_users float_of geodesic alert users
      in if status alert = None then (NoChannels 0 [none_has_no_value], [])
         else
           (let (n, tr) = notify_update_users delivers alert affected_users (0, [])
            in (NoChannels n [], tr)))"

section \<open>Alert update (api/v1/endpoints/emergency.py)\<close>

text \<open>
  \<^verbatim>\<open>EmergencyAlertUpdate\<close> with \<^verbatim>\<open>dict(exclude_unset=True)\<close>: a field is absent from
  the request (\<open>None\<close>), given as null (\<open>Some None\<close>) or given a value.
\<close>

record EmergencyAlertUpdate =
  upd_title :: "pystr option option"
  upd_description :: "pystr option option"
  upd_severity :: "AlertSeverity option option"
  upd_status :: "AlertStatus option option"
  upd_end_time :: "int option option"
  upd_expires_at :: "int option option"
  upd_contact_info :: "pystr option option"

datatype http_error = HTTP_403_FORBIDDEN | HTTP_404_NOT_FOUND | HTTP_500_INTERNAL_SERVER_ERROR

datatype py_exception = AttributeError

datatype background_task = BlockchainUpdate pystr | UpdateNotifications pystr

text \<open>The \<^verbatim>\<open>setattr\<close> loop: every field of the request overwrites the column. A null for
  a column that is not nullable makes the commit fail; the model answers \<open>None\<close> there.\<close>

definition apply_update :: "EmergencyAlertUpdate \<Rightarrow> EmergencyAlert \<Rightarrow> EmergencyAlert option" where
  "apply_update upd alert =
     (if upd_title upd = Some None \<or> upd_description upd = Some None \<or> upd_severity upd = Some None
      then None
      else Some (alert\<lparr>
        title := (case upd_title upd of Some (Some v) \<Rightarrow> v | _ \<Rightarrow> title alert),
        description := (case upd_description upd of Some (Some v) \<Rightarrow> v | _ \<Rightarrow> description alert),
        severity := (case upd_severity upd of Some (Some v) \<Rightarrow> v | _ \<Rightarrow> severity alert),
        status := (case upd_status upd of Some v \<Rightarrow> v | None \<Rightarrow> status alert),
        end_time := (case upd_end_time upd of Some v \<Rightarrow> v | None \<Rightarrow> end_time alert),
        expires_at := (case upd_expires_at upd of Some v \<Rightarrow> v | None \<Rightarrow> expires_at alert),
        contact_info := (case upd_contact_info upd of Some v \<Rightarrow> v | None \<Rightarrow> contact_info alert)\<rparr>))"

text \<open>
  \<^verbatim>\<open>alert.dict()\<close> on the stored alert. \<^verbatim>\<open>EmergencyAlert\<close> derives from the plain
  \<^verbatim>\<open>declarative_base()\<close> class and defines no \<^verbatim>\<open>dict\<close> method (the only helper,
  \<^verbatim>\<open>to_dict\<close>, belongs to another base class), so the attribute lookup raises.
\<close>

definition alert_dict :: "EmergencyAlert \<Rightarrow> py_exception + EmergencyAlert" where
  "alert_dict alert = Inl AttributeError"

text \<open>
  \<^verbatim>\<open>update_emergency_alert\<close>. The table of alerts is a map from the unique
  \<^verbatim>\<open>alert_id\<close>; \<open>now\<close> is \<^verbatim>\<open>datetime.utcnow()\<close>. The result is the response (the
  updated alert, or the HTTP error raised), the table after the call and the background
  tasks queued. A failed commit is rolled back and raised as error 500. After a commit
  that went through, the argument \<^verbatim>\<open>alert.dict()\<close> of the first \<^verbatim>\<open>add_task\<close> is
  evaluated; when it raises, the handler answers error 500 as well, no task is queued,
  and the rollback finds nothing to undo: the committed update stays in the table.
\<close>

definition update_emergency_alert ::
  "UserRole \<Rightarrow> pystr \<Rightarrow> EmergencyAlertUpdate \<Rightarrow> int \<Rightarrow> (pystr \<rightharpoonup> EmergencyAlert) \<Rightarrow>
   (http_error + EmergencyAlert) \<times> (pystr \<rightharpoonup> EmergencyAlert) \<times> background_task list" where
  "update_emergency_alert current_role aid alert_update now db =
     (if current_role \<noteq> GOVERNMENT \<and> current_role \<noteq> EMERGENCY_RESPONDER \<and> current_role \<noteq> ADMIN
      then (Inl HTTP_403_FORBIDDEN, db, [])
      else case db aid of
        None \<Rightarrow> (Inl HTTP_404_NOT_FOUND, db, [])
      | Some alert \<Rightarrow>
          (case apply_update alert_update alert of
             None \<Rightarrow> (Inl HTTP_500_INTERNAL_SERVER_ERROR, db, [])
           | Some updated \<Rightarrow>
               (let alert' = updated\<lparr>updated_at := Some now\<rparr>;
                    db' = db(aid \<mapsto> alert')
                in case alert_dict alert' of
                     Inl e \<Rightarrow> (Inl HTTP_500_INTERNAL_SERVER_ERROR, db', [])
                   | Inr d \<Rightarrow>
                       (Inr alert', db',
                        BlockchainUpdate (alert_id alert') #
                        (if upd_status alert_update \<noteq> None
                         then [UpdateNotifications (alert_id alert')] else [])))))"

text \<open>A request that sets nothing, and one that sets only the status.\<close>

definition empty_update :: EmergencyAlertUpdate where
  "empty_update =
     \<lparr>upd_title = None, upd_description = None, upd_severity = None, upd_status = None,
      upd_end_time = None, upd_expires_at = None, upd_contact_info = None\<rparr>"

definition status_request :: "AlertStatus \<Rightarrow> EmergencyAlertUpdate" where
  "status_request s = empty_update\<lparr>upd_status := Some (Some s)\<rparr>"

section \<open>Sample data for the evaluations\<close>

definition sample_alert :: "AlertSeverity \<Rightarrow> AlertStatus \<Rightarrow> real option \<Rightarrow> EmergencyAlert" where
  "sample_alert sev st r =
     \<lparr>alert_id = ascii ''ALERT-1'', title = ascii ''Flood'', description = ascii ''River'',
      severity = sev, status = Some st, latitude = 10, longitude = 20, radius = r,
      location_name = None, contact_info = None, end_time = None, expires_at = None,
      updated_at = None\<rparr>"

definition sample_user ::
  "int \<Rightarrow> UserRole \<Rightarrow> pystr option \<Rightarrow> pystr option \<Rightarrow> int option \<Rightarrow> User" where
  "sample_user i r loc phone nr =
     \<lparr>user_id = i, email = ascii ''a@b.c'', phone_number = phone, role = r, is_active = True,
      default_latitude = loc, default_longitude = loc, notification_radius = nr\<rparr>"

definition sample_db :: "pystr \<rightharpoonup> EmergencyAlert" where
  "sample_db = [ascii ''ALERT-1'' \<mapsto> sample_alert HIGH RESOLVED None]"

text \<open>The readings of an observation are all missing.\<close>

definition all_readings_missing :: "ClimateData \<Rightarrow> bool" where
  "all_readings_missing cd =
     (temperature cd = None \<and> humidity cd = None \<and> pressure cd = None \<and>
      wind_speed cd = None \<and> wind_direction cd = None \<and> precipitation cd = None \<and>
      visibility cd = None \<and> cloud_cover cd = None \<and> uv_index cd = None \<and>
      pm25 cd = None \<and> pm10 cd = None)"

text \<open>What one user's pass through the loop should amount to: the senders called for the
  user, in order, and how many of them deliver.\<close>

definition user_attempts :: "EmergencyAlert \<Rightarrow> User \<Rightarrow> trace" where
  "user_attempts alert u =
     [(Push, u)] @
     (if email u \<noteq> [] then [(Email, u)] else []) @
     (if severity alert = CRITICAL \<and> str_truthy (phone_number u) then [(Sms, u)] else [])"


section \<open>Risk scoring: properties\<close>




lemma learned_tier_passes_row_through:
  "predict cd = Some row \<Longrightarrow> 6 \<le> length row \<Longrightarrow>
     \<exists>ra. generate_risk_assessment predict cd = Some ra \<and>
       category_scores ra = take 6 row \<and> overall_risk ra = np_mean row"
proof -
  assume p: "predict cd = Some row" and len: "6 \<le> length row"
  from len obtain a b c d e f rest where row: "row = a # b # c # d # e # f # rest"
    by (auto simp: Suc_le_length_iff eval_nat_numeral)
  show ?thesis using p
    by (simp add: generate_risk_assessment_def row category_scores_def)
qed




text \<open>
  C5 (as the code has it). For temperature 40, humidity 20 and wind speed 20, with
  precipitation absent, the rule-based tier gives heat-wave exactly 1/2, storm 1/4 and
  wildfire 1/3, none of them above the threshold 1/2; flood, drought and cold-wave are 0.
\<close>

theorem rule_based_example_scores:
  "generate_default_risk_assessment (observation (Some 40) (Some 20) (Some 20) None) =
     Some \<lparr>climate_data_id = 1, flood_risk = 0, drought_risk = 0, storm_risk = 1/4,
       heat_wave_risk = 1/2, cold_wave_risk = 0, wildfire_risk = 1/3, overall_risk = 13/72,
       model_version = ''rule_based_v1.0'', confidence_score = 6/10,
       prediction_horizon = 24\<rparr>"
  by (simp add: generate_default_risk_assessment_def observation_def Let_def truthy_def
        fval_def np_mean_def)

theorem rule_based_example_not_above_threshold:
  "\<not> (case generate_default_risk_assessment (observation (Some 40) (Some 20) (Some 20) None) of
        None \<Rightarrow> False
      | Some ra \<Rightarrow> heat_wave_risk ra > 1/2 \<and> storm_risk ra > 1/2 \<and> wildfire_risk ra > 1/2)"
  by (simp add: generate_default_risk_assessment_def observation_def Let_def truthy_def
        fval_def np_mean_def)

text \<open>
  C6 (as the code has it). The drought score is 3/10 when the precipitation reading is
  present, not zero and below 1, and 0 otherwise; humidity is not consulted.
\<close>

theorem drought_depends_on_precipitation_only:
  "\<exists>ra. generate_default_risk_assessment cd = Some ra \<and>
     drought_risk ra =
       (case precipitation cd of None \<Rightarrow> 0
        | Some p \<Rightarrow> if p \<noteq> 0 \<and> p < 1 then 3/10 else 0)"
  by (auto simp add: generate_default_risk_assessment_def Let_def truthy_def fval_def
        split: option.splits)

theorem drought_with_high_humidity:
  "\<not> (case generate_default_risk_assessment (observation None (Some 90) None (Some (1/2))) of
        None \<Rightarrow> True
      | Some ra \<Rightarrow> drought_risk ra = 0)"
  by (simp add: generate_default_risk_assessment_def observation_def Let_def truthy_def
        fval_def np_mean_def)

text \<open>
  C9. When every reading of the observation is missing, the rule-based tier returns an
  assessment whose six category scores and overall score are all 0.
\<close>

theorem missing_readings_score_zero:
  assumes "all_readings_missing cd"
  shows "\<exists>ra. generate_default_risk_assessment cd = Some ra \<and>
     category_scores ra = [0, 0, 0, 0, 0, 0] \<and> overall_risk ra = 0"
  using assms
  by (simp add: all_readings_missing_def generate_default_risk_assessment_def Let_def
        truthy_def category_scores_def np_mean_def)

theorem missing_readings_score_zero_witness:
  "all_readings_missing (observation None None None None) \<and>
   (\<exists>ra. generate_default_risk_assessment (observation None None None None) = Some ra \<and>
      category_scores ra = [0, 0, 0, 0, 0, 0] \<and> overall_risk ra = 0)"
proof -
  have h: "all_readings_missing (observation None None None None)"
    by (simp add: all_readings_missing_def observation_def)
  show ?thesis
    using h missing_readings_score_zero [OF h] by simp
qed

section \<open>Geospatial matching: properties\<close>

lemma member_affected:
  "u \<in> set (find_affected_users fl geo a users) \<longleftrightarrow>
     u \<in> set users \<and> is_active u \<and> default_latitude u \<noteq> None \<and> default_longitude u \<noteq> None \<and>
     within_radius fl geo a u"
  by (auto simp: find_affected_users_def located_users_def)

lemma unlocated_never_matched:
  "default_latitude u = None \<or> default_longitude u = None \<Longrightarrow>
     u \<notin> set (find_affected_users fl geo a users)"
  by (auto simp: member_affected)

text \<open>
  C2 (as the code has it). For an active candidate whose stored coordinates parse and
  whose distance \<open>km\<close> to the alert is computed, the candidate is matched if and only if
  \<open>km\<close> is at most the larger of the two radii, where a radius that is absent or zero
  counts as 50 (\<^verbatim>\<open>alert.radius or 50\<close>). So a candidate at distance 0 is matched whenever
  the alert's radius is not negative, and a candidate farther than both of these radii is
  never matched.
\<close>

theorem matched_iff_within_effective_radius:
  assumes "u \<in> set users" and "is_active u"
    and "default_latitude u = Some la" and "default_longitude u = Some lo"
    and "float_of la = Some x" and "float_of lo = Some y"
    and "geodesic (latitude alert, longitude alert) (x, y) = Some km"
  shows "(u \<in> set (find_affected_users float_of geodesic alert users) \<longleftrightarrow>
     km \<le> max (case radius alert of None \<Rightarrow> 50 | Some r \<Rightarrow> if r = 0 then 50 else r)
              (case notification_radius u of None \<Rightarrow> 50
               | Some n \<Rightarrow> if n = 0 then 50 else real_of_int n)) \<and>
    (km = 0 \<and> (case radius alert of None \<Rightarrow> True | Some r \<Rightarrow> 0 \<le> r) \<longrightarrow>
       u \<in> set (find_affected_users float_of geodesic alert users)) \<and>
    (km > (case radius alert of None \<Rightarrow> 50 | Some r \<Rightarrow> if r = 0 then 50 else r) \<and>
     km > (case notification_radius u of None \<Rightarrow> 50
             | Some n \<Rightarrow> if n = 0 then 50 else real_of_int n) \<longrightarrow>
       u \<notin> set (find_affected_users float_of geodesic alert users))"
  using assms
  by (auto simp: member_affected within_radius_def py_or_def truthy_def fval_def Let_def
        split: option.splits)

theorem matched_iff_within_effective_radius_witness:
  "sample_user 1 CITIZEN (Some (ascii ''10.0'')) None (Some 30)
     \<in> set (find_affected_users (\<lambda>s. Some 10) (\<lambda>p q. Some 25) (sample_alert LOW ACTIVE (Some 10))
              [sample_user 1 CITIZEN (Some (ascii ''10.0'')) None (Some 30)])"
proof -
  let ?u = "sample_user 1 CITIZEN (Some (ascii ''10.0'')) None (Some 30)"
  let ?a = "sample_alert LOW ACTIVE (Some 10)"
  have "?u \<in> set (find_affected_users (\<lambda>s. Some 10) (\<lambda>p q. Some 25) ?a [?u]) \<longleftrightarrow>
     (25::real) \<le> max (case radius ?a of None \<Rightarrow> 50 | Some r \<Rightarrow> if r = 0 then 50 else r)
              (case notification_radius ?u of None \<Rightarrow> 50
               | Some n \<Rightarrow> if n = 0 then 50 else real_of_int n)"
    using matched_iff_within_effective_radius [of ?u "[?u]" "ascii ''10.0''" "ascii ''10.0''" "\<lambda>s. Some 10" 10 10
                "\<lambda>p q. Some 25" ?a 25]
    by (simp add: sample_user_def sample_alert_def)
  then show ?thesis by (simp add: sample_user_def sample_alert_def)
qed

text \<open>The claim as stated fails for an alert of radius 0: with a user radius of 10 it
  asks for distance at most 10, and the code matches a user 30 km away.\<close>

theorem zero_radius_falls_back_to_default:
  "sample_user 1 CITIZEN (Some (ascii ''10.0'')) None (Some 10)
     \<in> set (find_affected_users (\<lambda>s. Some 10) (\<lambda>p q. Some 30) (sample_alert LOW ACTIVE (Some 0))
              [sample_user 1 CITIZEN (Some (ascii ''10.0'')) None (Some 10)]) \<and>
   \<not> ((30::real) \<le> max 0 10)"
  by (simp add: find_affected_users_def located_users_def within_radius_def py_or_def
        truthy_def fval_def sample_user_def sample_alert_def)

section \<open>Dispatch: properties\<close>

lemma severity_value_critical: "severity_value s = ascii ''critical'' \<longleftrightarrow> s = CRITICAL"
  by (cases s) (simp_all add: ascii_def)

lemma notify_user_trace: "snd (notify_user d a u (r, t)) = t @ user_attempts a u"
  by (simp add: notify_user_def user_attempts_def severity_value_critical
        send_push_notification_def send_email_notification_def send_sms_notification_def
        Let_def split: prod.splits)







lemma notify_users_trace:
  "snd (notify_users d a us (r, t)) = t @ concat (map (user_attempts a) us)"
proof (induction us arbitrary: r t)
  case Nil
  then show ?case by simp
next
  case (Cons u us)
  obtain r' t' where st: "notify_user d a u (r, t) = (r', t')" by (cases "notify_user d a u (r, t)")
  then have "t' = t @ user_attempts a u" using notify_user_trace [of d a u r t] by simp
  with st Cons.IH [of r' t'] show ?case by simp
qed




lemma government_trace:
  "notify_government_users d a gs t =
     t @ concat (map (\<lambda>u. [(GovernmentEmail, u), (Push, u)]) gs)"
  by (induction gs arbitrary: t)
     (simp_all add: send_push_notification_def send_government_email_def)

lemma sms_not_government:
  "(Sms, u) \<notin> set (concat (map (\<lambda>u. [(GovernmentEmail, u), (Push, u)]) gs))"
  by (induction gs) auto

lemma sms_in_attempts:
  "(Sms, u) \<in> set (concat (map (user_attempts a) us)) \<longleftrightarrow>
     u \<in> set us \<and> severity a = CRITICAL \<and> str_truthy (phone_number u)"
  by (induction us) (auto simp: user_attempts_def)

lemma update_trace:
  "snd (notify_update_users d a us (n, t)) = t @ map (\<lambda>u. (UpdatePush, u)) us"
  by (induction us arbitrary: n t)
     (simp_all add: send_update_push_notification_def Let_def split: prod.splits)

lemma dispatch_unfold:
  assumes "find_affected_users fl geo a users \<noteq> []"
  shows "send_alert_notifications fl geo d a users =
     (Results (fst (notify_users d a (find_affected_users fl geo a users)
                 (\<lparr>notifications_sent = 0, errors = [], channels_used = []\<rparr>, []))),
      concat (map (user_attempts a) (find_affected_users fl geo a users)) @
      concat (map (\<lambda>u. [(GovernmentEmail, u), (Push, u)]) (government_users users)))"
proof -
  let ?us = "find_affected_users fl geo a users"
  let ?r0 = "\<lparr>notifications_sent = 0, errors = [], channels_used = []\<rparr>"
  obtain r t where st: "notify_users d a ?us (?r0, []) = (r, t)"
    by (cases "notify_users d a ?us (?r0, [])")
  then have "t = concat (map (user_attempts a) ?us)"
    using notify_users_trace [of d a ?us ?r0 "[]"] by simp
  with st assms show ?thesis
    by (simp add: send_alert_notifications_def Let_def notify_government_agencies_def
          government_trace)
qed

lemma dispatch_empty:
  "find_affected_users fl geo a users = [] \<Longrightarrow>
   send_alert_notifications fl geo d a users = (NoChannels 0 [], [])"
  by (simp add: send_alert_notifications_def)

lemma update_pass_trace:
  "snd (send_alert_update_notifications fl geo d a users) =
     (if status a = None then []
      else map (\<lambda>u. (UpdatePush, u)) (find_affected_users fl geo a users))"
proof -
  let ?us = "find_affected_users fl geo a users"
  obtain n t where st: "notify_update_users d a ?us (0, []) = (n, t)"
    by (cases "notify_update_users d a ?us (0, [])")
  then have "t = map (\<lambda>u. (UpdatePush, u)) ?us"
    using update_trace [of d a ?us 0 "[]"] by simp
  with st show ?thesis by (simp add: send_alert_update_notifications_def Let_def)
qed

lemma government_agencies_notified:
  "u \<in> set users \<Longrightarrow> is_active u \<Longrightarrow> role u = GOVERNMENT \<or> role u = EMERGENCY_RESPONDER \<Longrightarrow>
     (GovernmentEmail, u) \<in> set (notify_government_agencies d a users t) \<and>
     (Push, u) \<in> set (notify_government_agencies d a users t)"
  by (auto simp: notify_government_agencies_def government_trace government_users_def)

lemma no_affected_users_no_attempts:
  "find_affected_users fl geo a users = [] \<Longrightarrow>
     snd (send_alert_notifications fl geo d a users) = []"
  by (simp add: dispatch_empty)




text \<open>
  C7 (as the code has it). In a dispatch pass the SMS sender is called for a user if and
  only if the user is among the affected users of the geospatial match, the alert is
  critical and the user's phone number is not empty. The pass that follows a status change
  sends no SMS at all.
\<close>

theorem sms_attempted_iff:
  "((Sms, u) \<in> set (snd (send_alert_notifications fl geo d a users)) \<longleftrightarrow>
      u \<in> set (find_affected_users fl geo a users) \<and> severity a = CRITICAL \<and>
      str_truthy (phone_number u)) \<and>
   (Sms, u) \<notin> set (snd (send_alert_update_notifications fl geo d a users))"
proof -
  let ?us = "find_affected_users fl geo a users"
  have upd: "(Sms, u) \<notin> set (snd (send_alert_update_notifications fl geo d a users))"
    by (auto simp: update_pass_trace)
  have main: "(Sms, u) \<in> set (snd (send_alert_notifications fl geo d a users)) \<longleftrightarrow>
      u \<in> set ?us \<and> severity a = CRITICAL \<and> str_truthy (phone_number u)"
  proof (cases "?us = []")
    case True
    then show ?thesis by (simp add: dispatch_empty)
  next
    case False
    have "(Sms, u) \<in> set (snd (send_alert_notifications fl geo d a users)) \<longleftrightarrow>
            (Sms, u) \<in> set (concat (map (user_attempts a) ?us))"
      using sms_not_government [of u "government_users users"]
      by (simp only: dispatch_unfold [OF False] snd_conv set_append Un_iff) blast
    then show ?thesis by (simp only: sms_in_attempts)
  qed
  from main upd show ?thesis by blast
qed

theorem sms_attempted_iff_witness:
  "(Sms, sample_user 1 CITIZEN (Some (ascii ''10.0'')) (Some (ascii ''5550100'')) None)
     \<in> set (snd (send_alert_notifications (\<lambda>s. Some 10) (\<lambda>p q. Some 0) (\<lambda>c v. False)
          (sample_alert CRITICAL ACTIVE None)
          [sample_user 1 CITIZEN (Some (ascii ''10.0'')) (Some (ascii ''5550100'')) None])) \<and>
   (Sms, sample_user 1 CITIZEN (Some (ascii ''10.0'')) (Some (ascii ''5550100'')) None)
     \<notin> set (snd (send_alert_notifications (\<lambda>s. Some 10) (\<lambda>p q. Some 0) (\<lambda>c v. False)
          (sample_alert HIGH ACTIVE None)
          [sample_user 1 CITIZEN (Some (ascii ''10.0'')) (Some (ascii ''5550100'')) None]))"
  using sms_attempted_iff [of "sample_user 1 CITIZEN (Some (ascii ''10.0'')) (Some (ascii ''5550100'')) None"
      "\<lambda>s. Some 10" "\<lambda>p q. Some 0" "\<lambda>c v. False" "sample_alert CRITICAL ACTIVE None"
      "[sample_user 1 CITIZEN (Some (ascii ''10.0'')) (Some (ascii ''5550100'')) None]"]
    sms_attempted_iff [of "sample_user 1 CITIZEN (Some (ascii ''10.0'')) (Some (ascii ''5550100'')) None"
      "\<lambda>s. Some 10" "\<lambda>p q. Some 0" "\<lambda>c v. False" "sample_alert HIGH ACTIVE None"
      "[sample_user 1 CITIZEN (Some (ascii ''10.0'')) (Some (ascii ''5550100'')) None]"]
  by (simp add: find_affected_users_def located_users_def
        within_radius_def py_or_def truthy_def fval_def Let_def sample_user_def sample_alert_def
        str_truthy_def ascii_def)

text \<open>A government user with a phone number, reached through the government path of a
  critical alert, gets the push and no SMS.\<close>

theorem government_recipient_gets_no_sms:
  "severity (sample_alert CRITICAL ACTIVE None) = CRITICAL \<and>
   str_truthy (phone_number (sample_user 2 GOVERNMENT None (Some (ascii ''5550100'')) None)) \<and>
   (Push, sample_user 2 GOVERNMENT None (Some (ascii ''5550100'')) None)
     \<in> set (snd (send_alert_notifications (\<lambda>s. Some 10) (\<lambda>p q. Some 0) (\<lambda>c v. True)
          (sample_alert CRITICAL ACTIVE None)
          [sample_user 1 CITIZEN (Some (ascii ''10.0'')) None None,
           sample_user 2 GOVERNMENT None (Some (ascii ''5550100'')) None])) \<and>
   (Sms, sample_user 2 GOVERNMENT None (Some (ascii ''5550100'')) None)
     \<notin> set (snd (send_alert_notifications (\<lambda>s. Some 10) (\<lambda>p q. Some 0) (\<lambda>c v. True)
          (sample_alert CRITICAL ACTIVE None)
          [sample_user 1 CITIZEN (Some (ascii ''10.0'')) None None,
           sample_user 2 GOVERNMENT None (Some (ascii ''5550100'')) None]))"
  by (simp add: send_alert_notifications_def find_affected_users_def located_users_def
        within_radius_def py_or_def truthy_def fval_def Let_def notify_user_def
        notify_government_agencies_def government_users_def sample_user_def sample_alert_def
        send_push_notification_def send_email_notification_def send_sms_notification_def
        send_government_email_def record_success_def
        str_truthy_def ascii_def)

text \<open>
  C8. The pass stops before the government agencies are notified when no user is
  affected: for a table holding one active government user without coordinates, the pass
  calls no sender, while \<^verbatim>\<open>_notify_government_agencies\<close> on its own sends that user the
  government email and a push.
\<close>

theorem government_skipped_without_affected_users:
  "send_alert_notifications (\<lambda>s. None) (\<lambda>p q. None) (\<lambda>c v. True) (sample_alert CRITICAL ACTIVE None)
      [sample_user 2 GOVERNMENT None None None] = (NoChannels 0 [], []) \<and>
   notify_government_agencies (\<lambda>c v. True) (sample_alert CRITICAL ACTIVE None)
      [sample_user 2 GOVERNMENT None None None] [] =
     [(GovernmentEmail, sample_user 2 GOVERNMENT None None None),
      (Push, sample_user 2 GOVERNMENT None None None)]"
  by (simp add: send_alert_notifications_def find_affected_users_def located_users_def
        notify_government_agencies_def government_users_def sample_user_def
        send_push_notification_def send_government_email_def)

text \<open>
  C10. The SMS body is at most 160 characters long: a composed message of more than 160
  characters is replaced by its first 157 characters followed by three dots, and any other
  message is left as it is.
\<close>

theorem sms_message_at_most_160:
  "length (sms_message alert) \<le> 160 \<and>
   sms_message alert =
     (if length (sms_composed alert) > 160 then take 157 (sms_composed alert) @ ascii ''...''
      else sms_composed alert)"
  by (simp add: sms_message_def Let_def ascii_def)

section \<open>Alert update: properties\<close>

lemma update_answers_500:
  assumes "db aid = Some alert"
  shows "fst (update_emergency_alert current_role aid upd now db) \<noteq> Inr alert'' \<and>
         snd (snd (update_emergency_alert current_role aid upd now db)) = []"
  using assms
  by (auto simp: update_emergency_alert_def alert_dict_def Let_def split: option.splits)

text \<open>
  C1 (as the code has it). The update has no guard on the current status. An authorised
  update of an existing alert that does not null a column that is not nullable is
  committed whatever the status of the alert, terminal or not: afterwards the table holds
  the alert with the status of the request when the request has one, and with its old
  status otherwise. So the stored status can leave a terminal state.
\<close>

theorem update_status_follows_request:
  assumes "current_role = GOVERNMENT \<or> current_role = EMERGENCY_RESPONDER \<or> current_role = ADMIN"
    and "db aid = Some alert"
    and "upd_title upd \<noteq> Some None" and "upd_description upd \<noteq> Some None"
    and "upd_severity upd \<noteq> Some None"
  shows "\<exists>response alert' tasks.
     update_emergency_alert current_role aid upd now db = (response, db(aid \<mapsto> alert'), tasks) \<and>
     status alert' = (case upd_status upd of None \<Rightarrow> status alert | Some s \<Rightarrow> s)"
  using assms
  by (auto simp: update_emergency_alert_def apply_update_def alert_dict_def Let_def)

theorem update_status_follows_request_witness:
  "\<exists>response alert' tasks.
     update_emergency_alert ADMIN (ascii ''ALERT-1'')
       (empty_update\<lparr>upd_contact_info := Some (Some (ascii ''112''))\<rparr>) 7 sample_db =
       (response, sample_db(ascii ''ALERT-1'' \<mapsto> alert'), tasks) \<and>
     status alert' = Some RESOLVED"
proof -
  have "\<exists>response alert' tasks.
     update_emergency_alert ADMIN (ascii ''ALERT-1'')
       (empty_update\<lparr>upd_contact_info := Some (Some (ascii ''112''))\<rparr>) 7 sample_db =
       (response, sample_db(ascii ''ALERT-1'' \<mapsto> alert'), tasks) \<and>
     status alert' = (case upd_status (empty_update\<lparr>upd_contact_info := Some (Some (ascii ''112''))\<rparr>)
                      of None \<Rightarrow> status (sample_alert HIGH RESOLVED None) | Some s \<Rightarrow> s)"
    by (rule update_status_follows_request) (simp_all add: sample_db_def empty_update_def)
  then show ?thesis by (simp add: empty_update_def sample_alert_def)
qed

text \<open>A request that changes only the status of a resolved alert is answered with the
  general error 500, and the table holds the alert as active afterwards.\<close>

theorem resolved_alert_reactivated:
  "update_emergency_alert GOVERNMENT (ascii ''ALERT-1'') (status_request ACTIVE) 7 sample_db =
     (Inl HTTP_500_INTERNAL_SERVER_ERROR,
      sample_db(ascii ''ALERT-1'' \<mapsto>
        (sample_alert HIGH RESOLVED None)\<lparr>status := Some ACTIVE, updated_at := Some 7\<rparr>),
      [])"
  by (simp add: update_emergency_alert_def apply_update_def alert_dict_def Let_def sample_db_def
        status_request_def empty_update_def sample_alert_def)

end
